theory Spec2Isabelle
  imports Main
begin

section \<open>Python values used by the component\<close>

text \<open>
  A Python \<open>str\<close> is a sequence of Unicode code points, so \<open>len\<close> counts code points and
  \<open>urllib.parse.quote\<close> has to encode them as UTF-8 first. Code points are natural numbers
  (Python's are below \<open>0x110000\<close>); \<open>ascii\<close> reads a literal of the source.
\<close>

type_synonym pystr = "nat list"

definition ascii :: "string \<Rightarrow> pystr" where
  "ascii s = map of_char s"

datatype pyval = NoneV | Str pystr | IntV int

text \<open>\<open>str(n)\<close> of an integer: its decimal digits, with a leading minus sign.\<close>

fun str_nat :: "nat \<Rightarrow> pystr" where
  "str_nat n = (if n < 10 then [48 + n] else str_nat (n div 10) @ [48 + n mod 10])"

declare str_nat.simps [simp del]

definition str_int :: "int \<Rightarrow> pystr" where
  "str_int i = (if i < 0 then 45 # str_nat (nat (- i)) else str_nat (nat i))"

fun py_str :: "pyval \<Rightarrow> pystr" where
  "py_str NoneV = ascii ''None''"
| "py_str (Str s) = s"
| "py_str (IntV i) = str_int i"

text \<open>Truth value of an object, and \<open>x or y\<close>.\<close>

fun py_bool :: "pyval \<Rightarrow> bool" where
  "py_bool NoneV = False"
| "py_bool (Str s) = (s \<noteq> [])"
| "py_bool (IntV i) = (i \<noteq> 0)"

definition py_or :: "pyval \<Rightarrow> pyval \<Rightarrow> pyval" where
  "py_or x y = (if py_bool x then x else y)"

text \<open>
  \<open>str.strip()\<close> without arguments removes leading and trailing characters for which
  \<open>str.isspace\<close> holds: the ASCII controls \<open>0x09-0x0D\<close> and \<open>0x1C-0x1F\<close>, the space, and the
  Unicode spaces and line separators.
\<close>

definition isspace :: "nat \<Rightarrow> bool" where
  "isspace c \<longleftrightarrow>
     (9 \<le> c \<and> c \<le> 13) \<or> (28 \<le> c \<and> c \<le> 32) \<or> c = 133 \<or> c = 160 \<or> c = 5760 \<or>
     (8192 \<le> c \<and> c \<le> 8202) \<or> c = 8232 \<or> c = 8233 \<or> c = 8239 \<or> c = 8287 \<or> c = 12288"

definition strip :: "pystr \<Rightarrow> pystr" where
  "strip s = rev (dropWhile isspace (rev (dropWhile isspace s)))"

section \<open>Exceptions\<close>

text \<open>
  The exception classes that matter to \<open>search_web\<close>: \<open>requests.RequestException\<close> (with
  its \<open>str(e)\<close>), which the handler catches, \<open>UnicodeEncodeError\<close>, raised by the strict UTF-8
  encoder inside \<open>urllib.parse.quote\<close>, and any other class, which the handler lets through.
\<close>

datatype py_exception = RequestException pystr | UnicodeEncodeError | OtherException pystr

section \<open>\<open>urllib.parse.quote\<close>\<close>

text \<open>
  \<open>quote(string)\<close> with its defaults \<open>safe='/'\<close>, \<open>encoding='utf-8'\<close>, \<open>errors='strict'\<close>:
  the empty string is returned as it is; otherwise the string is encoded as UTF-8, where a
  surrogate code point \<open>U+D800..U+DFFF\<close> raises \<open>UnicodeEncodeError\<close>, and every byte outside
  the letters, digits, \<open>_.-~\<close> and \<open>/\<close> becomes \<open>%XX\<close> with upper-case hexadecimal digits.
\<close>

definition is_surrogate :: "nat \<Rightarrow> bool" where
  "is_surrogate c \<longleftrightarrow> 55296 \<le> c \<and> c \<le> 57343"

definition utf8_char :: "nat \<Rightarrow> py_exception + nat list" where
  "utf8_char c =
     (if c < 128 then Inr [c]
      else if c < 2048 then Inr [192 + c div 64, 128 + c mod 64]
      else if is_surrogate c then Inl UnicodeEncodeError
      else if c < 65536 then Inr [224 + c div 4096, 128 + (c div 64) mod 64, 128 + c mod 64]
      else Inr [240 + c div 262144, 128 + (c div 4096) mod 64, 128 + (c div 64) mod 64,
                128 + c mod 64])"

fun utf8_encode :: "pystr \<Rightarrow> py_exception + nat list" where
  "utf8_encode [] = Inr []"
| "utf8_encode (c # cs) =
     (case utf8_char c of
        Inl e \<Rightarrow> Inl e
      | Inr bs \<Rightarrow> (case utf8_encode cs of Inl e \<Rightarrow> Inl e | Inr r \<Rightarrow> Inr (bs @ r)))"

definition always_safe :: "nat \<Rightarrow> bool" where
  "always_safe b \<longleftrightarrow>
     (65 \<le> b \<and> b \<le> 90) \<or> (97 \<le> b \<and> b \<le> 122) \<or> (48 \<le> b \<and> b \<le> 57) \<or>
     b = 95 \<or> b = 46 \<or> b = 45 \<or> b = 126"

definition hex_digit :: "nat \<Rightarrow> nat" where
  "hex_digit d = (if d < 10 then 48 + d else 55 + d)"

definition quote_byte :: "nat \<Rightarrow> pystr" where
  "quote_byte b =
     (if always_safe b \<or> b = 47 then [b] else [37, hex_digit (b div 16), hex_digit (b mod 16)])"

definition quote :: "pystr \<Rightarrow> py_exception + pystr" where
  "quote s =
     (if s = [] then Inr s
      else case utf8_encode s of
             Inl e \<Rightarrow> Inl e
           | Inr bs \<Rightarrow> Inr (concat (map quote_byte bs)))"

section \<open>Decoding\<close>

text \<open>
  The standard decoders, the inverse direction of \<open>quote\<close>. The component does not call
  them; they say what a percent-encoded query stands for, so that the encoding can be
  shown to lose nothing.
\<close>







section \<open>The component\<close>

text \<open>
  \<open>query_input\<close> is either a \<open>Message\<close> object, which has a \<open>text\<close> attribute, or a plain
  value without one (a string, or \<open>None\<close> when unset).
\<close>

datatype input_value = Message pyval | Plain pyval

record component =
  api_token :: pyval
  query_input :: input_value
  engine :: pyval

text \<open>The \<open>Data\<close> object returned: its \<open>text\<close> and its \<open>data\<close> dictionary, in insertion order.\<close>

record Data =
  dtext :: pystr
  ddata :: "(string \<times> pyval) list"

text \<open>What \<open>requests.post\<close> is called with, and the response it returns.\<close>

record http_request =
  url :: pystr
  json :: "(string \<times> pystr) list"
  headers :: "(string \<times> pystr) list"
  timeout :: nat

record response =
  status_code :: int
  response_text :: pystr

type_synonym dispatcher = "http_request \<Rightarrow> py_exception + response"

definition build_search_url :: "pyval \<Rightarrow> pystr \<Rightarrow> py_exception + pystr" where
  "build_search_url eng query =
     (case quote query of
        Inl e \<Rightarrow> Inl e
      | Inr encoded_query \<Rightarrow>
          if eng = Str (ascii ''yandex'') then
            Inr (ascii ''https://yandex.com/search/?text='' @ encoded_query)
          else if eng = Str (ascii ''bing'') then
            Inr (ascii ''https://www.bing.com/search?q='' @ encoded_query)
          else Inr (ascii ''https://www.google.com/search?q='' @ encoded_query))"

fun get_query_from_input :: "component \<Rightarrow> pystr" where
  "get_query_from_input self =
     (case query_input self of
        Message t \<Rightarrow> strip (py_str t)
      | Plain v \<Rightarrow> strip (py_str (py_or v (Str []))))"

text \<open>
  The request of \<open>search_web\<close>: the payload and headers it builds for a search URL.
\<close>

definition search_request :: "component \<Rightarrow> pystr \<Rightarrow> http_request" where
  "search_request self search_url =
     \<lparr>url = ascii ''https://api.brightdata.com/request'',
      json = [(''url'', search_url), (''zone'', ascii ''mcp_unlocker''),
              (''format'', ascii ''raw''), (''data_format'', ascii ''markdown'')],
      headers = [(''authorization'', ascii ''Bearer '' @ py_str (api_token self)),
                 (''Content-Type'', ascii ''application/json'')],
      timeout = 120\<rparr>"

text \<open>
  The body of the \<open>try\<close> block. It returns the \<open>Data\<close> object, or the exception raised
  together with the binding of the local variable \<open>query\<close> at that moment (\<open>None\<close> when
  unbound), and the list of requests handed to \<open>requests.post\<close>.
\<close>

definition search_web_try ::
  "dispatcher \<Rightarrow> component \<Rightarrow> ((py_exception \<times> pystr option) + Data) \<times> http_request list" where
  "search_web_try post self =
     (let query = get_query_from_input self in
      if query = [] then
        (let error_msg = ascii ''Search query is required'' in
         (Inr \<lparr>dtext = error_msg,
               ddata = [(''status'', Str (ascii ''error'')), (''error'', Str error_msg)]\<rparr>, []))
      else
        case build_search_url (engine self) query of
          Inl e \<Rightarrow> (Inl (e, Some query), [])
        | Inr search_url \<Rightarrow>
            (let req = search_request self search_url in
             case post req of
               Inl e \<Rightarrow> (Inl (e, Some query), [req])
             | Inr resp \<Rightarrow>
                 if status_code resp = 200 then
                   (let results = response_text resp in
                    (Inr \<lparr>dtext = results,
                          ddata = [(''query'', Str query), (''engine'', engine self),
                                   (''search_url'', Str search_url),
                                   (''status'', Str (ascii ''success'')),
                                   (''results_length'', IntV (int (length results)))]\<rparr>, [req]))
                 else
                   (let error_msg = ascii ''Error searching: HTTP '' @ str_int (status_code resp)
                                      @ ascii '' - '' @ response_text resp in
                    (Inr \<lparr>dtext = error_msg,
                          ddata = [(''query'', Str query), (''engine'', engine self),
                                   (''status'', Str (ascii ''error'')),
                                   (''error'', Str error_msg)]\<rparr>, [req]))))"

text \<open>
  \<open>search_web\<close>: the \<open>try\<close> block with its handler \<open>except requests.RequestException\<close>.
  Any other exception leaves the method.
\<close>

definition search_web :: "dispatcher \<Rightarrow> component \<Rightarrow> (py_exception + Data) \<times> http_request list" where
  "search_web post self =
     (case search_web_try post self of
        (Inr d, reqs) \<Rightarrow> (Inr d, reqs)
      | (Inl (RequestException e, query_local), reqs) \<Rightarrow>
          (let error_msg = ascii ''Exception occurred while searching: '' @ e in
           (Inr \<lparr>dtext = error_msg,
                 ddata = [(''query'', (case query_local of Some query \<Rightarrow> Str query
                                        | None \<Rightarrow> Str (ascii ''unknown''))),
                          (''engine'', engine self),
                          (''status'', Str (ascii ''error'')),
                          (''error'', Str error_msg)]\<rparr>, reqs))
      | (Inl (e, query_local), reqs) \<Rightarrow> (Inl e, reqs))"

section \<open>Example dispatchers and components\<close>

text \<open>A simulated network: every request gets the same response, or the same exception.\<close>

definition respond :: "int \<Rightarrow> pystr \<Rightarrow> dispatcher" where
  "respond code body req = Inr \<lparr>status_code = code, response_text = body\<rparr>"

definition fail_with :: "py_exception \<Rightarrow> dispatcher" where
  "fail_with e req = Inl e"

definition example_component :: "pystr \<Rightarrow> component" where
  "example_component q =
     \<lparr>api_token = Str (ascii ''secret''), query_input = Plain (Str q),
      engine = Str (ascii ''google'')\<rparr>"

section \<open>Properties of the string operations\<close>

declare get_query_from_input.simps [simp del]

lemma utf8_char_Inl_iff: "utf8_char c = Inl e \<longleftrightarrow> e = UnicodeEncodeError \<and> is_surrogate c"
  by (auto simp: utf8_char_def is_surrogate_def)

lemma utf8_encode_Inl_iff:
  "utf8_encode s = Inl e \<longleftrightarrow> e = UnicodeEncodeError \<and> (\<exists>c\<in>set s. is_surrogate c)"
proof (induction s)
  case Nil
  show ?case by simp
next
  case (Cons c cs)
  show ?case
  proof (cases "utf8_char c")
    case (Inl x)
    then show ?thesis using utf8_char_Inl_iff [of c x] by auto
  next
    case (Inr bs)
    then have "\<not> is_surrogate c"
      using utf8_char_Inl_iff [of c UnicodeEncodeError] by auto
    with Inr Cons.IH show ?thesis by (auto split: sum.splits)
  qed
qed


text \<open>The shortcut of \<open>quote\<close> for the empty string agrees with the general path.\<close>

lemma quote_utf8:
  "quote s = (case utf8_encode s of Inl e \<Rightarrow> Inl e | Inr bs \<Rightarrow> Inr (concat (map quote_byte bs)))"
  by (cases s) (simp_all add: quote_def)

lemma quote_Inl_iff: "quote s = Inl e \<longleftrightarrow> e = UnicodeEncodeError \<and> (\<exists>c\<in>set s. is_surrogate c)"
  using utf8_encode_Inl_iff [of s e] by (auto simp: quote_utf8 split: sum.splits)

lemma quote_total: "\<forall>c\<in>set s. \<not> is_surrogate c \<Longrightarrow> \<exists>enc. quote s = Inr enc"
  using quote_Inl_iff [of s] by (cases "quote s") auto
























lemma strip_eq_Nil_iff: "strip s = [] \<longleftrightarrow> (\<forall>c\<in>set s. isspace c)"
proof
  assume "\<forall>c\<in>set s. isspace c"
  then show "strip s = []" by (auto simp: strip_def dest: set_dropWhileD)
next
  assume "strip s = []"
  then have all: "\<forall>x\<in>set (dropWhile isspace s). isspace x"
    by (simp add: strip_def)
  have "dropWhile isspace s = []"
  proof (rule ccontr)
    assume ne: "dropWhile isspace s \<noteq> []"
    then have "\<not> isspace (hd (dropWhile isspace s))" by (rule hd_dropWhile)
    moreover have "hd (dropWhile isspace s) \<in> set (dropWhile isspace s)"
      using ne by simp
    ultimately show False using all by blast
  qed
  then show "\<forall>c\<in>set s. isspace c" by simp
qed

section \<open>Properties of \<open>search_web\<close>\<close>

text \<open>The four ways through the \<open>try\<close> block.\<close>

lemma search_web_try_blank:
  "get_query_from_input self = [] \<Longrightarrow>
   search_web_try post self =
     (Inr \<lparr>dtext = ascii ''Search query is required'',
           ddata = [(''status'', Str (ascii ''error'')),
                    (''error'', Str (ascii ''Search query is required''))]\<rparr>, [])"
  by (simp add: search_web_try_def Let_def)

lemma search_web_try_encode_error:
  "get_query_from_input self \<noteq> [] \<Longrightarrow>
   build_search_url (engine self) (get_query_from_input self) = Inl e \<Longrightarrow>
   search_web_try post self = (Inl (e, Some (get_query_from_input self)), [])"
  by (simp add: search_web_try_def)

lemma search_web_try_post_raises:
  "get_query_from_input self \<noteq> [] \<Longrightarrow>
   build_search_url (engine self) (get_query_from_input self) = Inr u \<Longrightarrow>
   post (search_request self u) = Inl e \<Longrightarrow>
   search_web_try post self =
     (Inl (e, Some (get_query_from_input self)), [search_request self u])"
  by (simp add: search_web_try_def)

lemma search_web_try_response:
  "get_query_from_input self \<noteq> [] \<Longrightarrow>
   build_search_url (engine self) (get_query_from_input self) = Inr u \<Longrightarrow>
   post (search_request self u) = Inr resp \<Longrightarrow>
   search_web_try post self =
     (if status_code resp = 200 then
        (Inr \<lparr>dtext = response_text resp,
              ddata = [(''query'', Str (get_query_from_input self)), (''engine'', engine self),
                       (''search_url'', Str u), (''status'', Str (ascii ''success'')),
                       (''results_length'', IntV (int (length (response_text resp))))]\<rparr>,
         [search_request self u])
      else
        (Inr \<lparr>dtext = ascii ''Error searching: HTTP '' @ str_int (status_code resp)
                        @ ascii '' - '' @ response_text resp,
              ddata = [(''query'', Str (get_query_from_input self)), (''engine'', engine self),
                       (''status'', Str (ascii ''error'')),
                       (''error'', Str (ascii ''Error searching: HTTP ''
                                          @ str_int (status_code resp)
                                          @ ascii '' - '' @ response_text resp))]\<rparr>,
         [search_request self u]))"
  by (simp add: search_web_try_def Let_def)

lemma search_web_try_query_bound:
  "search_web_try post self = (Inl (e, ql), reqs) \<Longrightarrow> ql = Some (get_query_from_input self)"
  by (auto simp: search_web_try_def Let_def split: if_splits sum.splits)

lemma build_search_url_Inl_iff:
  "build_search_url eng q = Inl e \<longleftrightarrow> e = UnicodeEncodeError \<and> (\<exists>c\<in>set q. is_surrogate c)"
  using quote_Inl_iff [of q e] by (auto simp: build_search_url_def split: sum.splits)

lemma build_search_url_total:
  "\<forall>c\<in>set q. \<not> is_surrogate c \<Longrightarrow> \<exists>u. build_search_url eng q = Inr u"
  using build_search_url_Inl_iff [of eng q] by (cases "build_search_url eng q") auto

lemma success_neq_error: "ascii ''success'' \<noteq> ascii ''error''"
  by (simp add: ascii_def)

lemma example_query:
  "get_query_from_input (example_component (ascii '' cats and dogs '')) =
     ascii ''cats and dogs''"
  by (simp add: get_query_from_input.simps example_component_def py_or_def strip_def isspace_def ascii_def)

lemma example_url:
  "build_search_url (Str (ascii ''google'')) (ascii ''cats and dogs'')
     = Inr (ascii ''https://www.google.com/search?q=cats%20and%20dogs'')"
  by (simp add: build_search_url_def quote_def utf8_char_def quote_byte_def always_safe_def
      hex_digit_def ascii_def)

lemma example_engine: "engine (example_component q) = Str (ascii ''google'')"
  by (simp add: example_component_def)

lemma example_query_strip: "get_query_from_input (example_component q) = strip q"
  by (simp add: get_query_from_input.simps example_component_def py_or_def strip_def)

lemma strip_cats: "strip (ascii ''cats and dogs'') = ascii ''cats and dogs''"
  by (simp add: strip_def isspace_def ascii_def)

lemma search_web_requests: "snd (search_web post self) = snd (search_web_try post self)"
  by (auto simp: search_web_def Let_def split: prod.splits sum.splits py_exception.splits)

lemma quote_a_b: "quote (ascii ''a b'') = Inr (ascii ''a%20b'')"
  by (simp add: quote_def utf8_char_def quote_byte_def always_safe_def hex_digit_def ascii_def)


lemma search_web_request_exception:
  "search_web_try post self = (Inl (RequestException m, ql), reqs) \<Longrightarrow>
   search_web post self =
     (Inr \<lparr>dtext = ascii ''Exception occurred while searching: '' @ m,
           ddata = [(''query'', (case ql of Some query \<Rightarrow> Str query
                                  | None \<Rightarrow> Str (ascii ''unknown''))),
                    (''engine'', engine self),
                    (''status'', Str (ascii ''error'')),
                    (''error'', Str (ascii ''Exception occurred while searching: '' @ m))]\<rparr>,
      reqs)"
  by (simp add: search_web_def Let_def)

text \<open>
  The records of a non-empty query, on success and on both error paths, hold the keys
  \<open>query\<close>, \<open>engine\<close> and \<open>status\<close>.
\<close>

lemma search_web_nonempty_record_keys:
  assumes "get_query_from_input self \<noteq> []" and "fst (search_web post self) = Inr d"
  shows "map_of (ddata d) ''query'' = Some (Str (get_query_from_input self)) \<and>
         map_of (ddata d) ''engine'' = Some (engine self) \<and>
         (map_of (ddata d) ''status'' = Some (Str (ascii ''success'')) \<or>
          map_of (ddata d) ''status'' = Some (Str (ascii ''error'')))"
proof (cases "build_search_url (engine self) (get_query_from_input self)")
  case (Inl e)
  have "e = UnicodeEncodeError" using Inl by (simp add: build_search_url_Inl_iff)
  then show ?thesis
    using search_web_try_encode_error [where post = post, OF assms(1) Inl] assms(2)
    by (simp add: search_web_def)
next
  case (Inr u)
  show ?thesis
  proof (cases "post (search_request self u)")
    case (Inl e)
    note t = search_web_try_post_raises [where post = post, OF assms(1) Inr Inl]
    show ?thesis
    proof (cases e)
      case (RequestException m)
      then show ?thesis
        using search_web_request_exception [of post self m] t assms(2) by auto
    next
      case UnicodeEncodeError
      then show ?thesis using t assms(2) by (simp add: search_web_def)
    next
      case (OtherException m)
      then show ?thesis using t assms(2) by (simp add: search_web_def)
    qed
  next
    case resp: (Inr resp)
    show ?thesis
      using search_web_try_response [where post = post, OF assms(1) Inr resp] assms(2)
      by (auto simp: search_web_def split: if_splits)
  qed
qed

lemma get_query_from_input_token:
  "get_query_from_input (self\<lparr>api_token := t\<rparr>) = get_query_from_input self"
  by (simp add: get_query_from_input.simps)

lemma search_web_result:
  "fst (search_web post self) =
     (case fst (search_web_try post self) of
        Inr d \<Rightarrow> Inr d
      | Inl (RequestException m, ql) \<Rightarrow>
          Inr \<lparr>dtext = ascii ''Exception occurred while searching: '' @ m,
               ddata = [(''query'', (case ql of Some query \<Rightarrow> Str query
                                      | None \<Rightarrow> Str (ascii ''unknown''))),
                        (''engine'', engine self),
                        (''status'', Str (ascii ''error'')),
                        (''error'', Str (ascii ''Exception occurred while searching: '' @ m))]\<rparr>
      | Inl (e, ql) \<Rightarrow> Inl e)"
  by (auto simp: search_web_def Let_def split: prod.splits sum.splits py_exception.splits)






section \<open>The claims\<close>

text \<open>
  C1. For a non-empty trimmed query whose POST returns status code 200 with body \<open>B\<close>,
  \<open>search_web\<close> returns a success record: \<open>text\<close> is \<open>B\<close> and \<open>data\<close> holds the query, the
  engine, the search URL, \<open>status = "success"\<close> and \<open>results_length = len(B)\<close>. The body
  \<open>"X"\<close> gives \<open>results_length = 1\<close>.
\<close>

theorem search_web_http_200:
  assumes "get_query_from_input self = q" and "q \<noteq> []"
    and "build_search_url (engine self) q = Inr u"
    and "post (search_request self u) = Inr \<lparr>status_code = 200, response_text = B\<rparr>"
  shows "search_web post self =
           (Inr \<lparr>dtext = B,
                 ddata = [(''query'', Str q), (''engine'', engine self), (''search_url'', Str u),
                          (''status'', Str (ascii ''success'')),
                          (''results_length'', IntV (int (length B)))]\<rparr>,
            [search_request self u])"
  using assms by (simp add: search_web_def search_web_try_response)

theorem search_web_http_200_witness:
  "search_web (respond 200 (ascii ''X'')) (example_component (ascii '' cats and dogs '')) =
     (Inr \<lparr>dtext = ascii ''X'',
           ddata = [(''query'', Str (ascii ''cats and dogs'')),
                    (''engine'', Str (ascii ''google'')),
                    (''search_url'', Str (ascii ''https://www.google.com/search?q=cats%20and%20dogs'')),
                    (''status'', Str (ascii ''success'')),
                    (''results_length'', IntV 1)]\<rparr>,
      [search_request (example_component (ascii '' cats and dogs ''))
         (ascii ''https://www.google.com/search?q=cats%20and%20dogs'')])"
proof -
  have q: "get_query_from_input (example_component (ascii '' cats and dogs '')) = ascii ''cats and dogs''"
    by (rule example_query)
  have ne: "ascii ''cats and dogs'' \<noteq> []" by (simp add: ascii_def)
  have u: "build_search_url (engine (example_component (ascii '' cats and dogs ''))) (ascii ''cats and dogs'')
             = Inr (ascii ''https://www.google.com/search?q=cats%20and%20dogs'')"
    by (simp add: example_engine example_url)
  have p: "respond 200 (ascii ''X'') (search_request (example_component (ascii '' cats and dogs ''))
             (ascii ''https://www.google.com/search?q=cats%20and%20dogs''))
           = Inr \<lparr>status_code = 200, response_text = ascii ''X''\<rparr>"
    by (simp add: respond_def)
  have l: "int (length (ascii ''X'')) = 1" by (simp add: ascii_def)
  show ?thesis
    using search_web_http_200 [where post = "respond 200 (ascii ''X'')", OF q ne u p] by (simp add: example_engine l)
qed

text \<open>
  C2. The claim puts the boundary between success and error at the 2xx range. The code
  compares the status code with 200 only: a 204 response, inside the 2xx range, gives an
  error record.
\<close>

theorem search_web_204_counterexample:
  "(200::int) \<le> 204 \<and> (204::int) < 300 \<and>
   fst (search_web (respond 204 []) (example_component (ascii ''cats and dogs''))) =
     Inr \<lparr>dtext = ascii ''Error searching: HTTP 204 - '',
          ddata = [(''query'', Str (ascii ''cats and dogs'')),
                   (''engine'', Str (ascii ''google'')),
                   (''status'', Str (ascii ''error'')),
                   (''error'', Str (ascii ''Error searching: HTTP 204 - ''))]\<rparr>"
proof -
  have q: "get_query_from_input (example_component (ascii ''cats and dogs'')) \<noteq> []"
    by (simp add: example_query_strip strip_cats) (simp add: ascii_def)
  have u: "build_search_url (engine (example_component (ascii ''cats and dogs'')))
             (get_query_from_input (example_component (ascii ''cats and dogs'')))
           = Inr (ascii ''https://www.google.com/search?q=cats%20and%20dogs'')"
    by (simp add: example_query_strip strip_cats example_engine example_url)
  have s: "str_int 204 = ascii ''204''"
    by (simp add: str_int_def str_nat.simps ascii_def)
  show ?thesis
    using search_web_try_response [where post = "respond 204 []" and resp = "\<lparr>status_code = 204, response_text = []\<rparr>", OF q u]
    by (simp add: search_web_def respond_def example_query_strip strip_cats example_engine s)
      (simp add: ascii_def)
qed

text \<open>
  C2, as amended. For a non-empty query whose POST returns a response, the record has
  \<open>status = "success"\<close> exactly when the status code is 200; for every other status code it
  has \<open>status = "error"\<close> and its text and \<open>error\<close> entry are
  \<open>"Error searching: HTTP <status code> - <body>"\<close>, so a 503 response gives a text
  containing \<open>503\<close>.
\<close>

theorem search_web_status_200_boundary:
  assumes "get_query_from_input self = q" and "q \<noteq> []"
    and "build_search_url (engine self) q = Inr u"
    and "post (search_request self u) = Inr resp"
  shows "\<exists>d. fst (search_web post self) = Inr d \<and>
           (if status_code resp = 200 then
              map_of (ddata d) ''status'' = Some (Str (ascii ''success''))
            else
              map_of (ddata d) ''status'' = Some (Str (ascii ''error'')) \<and>
              dtext d = ascii ''Error searching: HTTP '' @ str_int (status_code resp)
                          @ ascii '' - '' @ response_text resp \<and>
              map_of (ddata d) ''error'' = Some (Str (dtext d)))"
  using assms by (simp add: search_web_def search_web_try_response)

theorem search_web_status_200_boundary_witness:
  "\<exists>d. fst (search_web (respond 503 (ascii ''Service Unavailable''))
              (example_component (ascii ''cats and dogs''))) = Inr d \<and>
       map_of (ddata d) ''status'' = Some (Str (ascii ''error'')) \<and>
       dtext d = ascii ''Error searching: HTTP 503 - Service Unavailable''"
proof -
  have q: "get_query_from_input (example_component (ascii ''cats and dogs'')) = ascii ''cats and dogs''"
    by (simp add: example_query_strip strip_cats)
  have ne: "ascii ''cats and dogs'' \<noteq> []" by (simp add: ascii_def)
  have u: "build_search_url (engine (example_component (ascii ''cats and dogs''))) (ascii ''cats and dogs'')
             = Inr (ascii ''https://www.google.com/search?q=cats%20and%20dogs'')"
    by (simp add: example_engine example_url)
  have p: "respond 503 (ascii ''Service Unavailable'')
             (search_request (example_component (ascii ''cats and dogs''))
                (ascii ''https://www.google.com/search?q=cats%20and%20dogs''))
           = Inr \<lparr>status_code = 503, response_text = ascii ''Service Unavailable''\<rparr>"
    by (simp add: respond_def)
  have s: "ascii ''Error searching: HTTP '' @ str_int 503 @ ascii '' - '' @ ascii ''Service Unavailable''
             = ascii ''Error searching: HTTP 503 - Service Unavailable''"
    by (simp add: str_int_def str_nat.simps ascii_def)
  show ?thesis
    using search_web_status_200_boundary
      [where post = "respond 503 (ascii ''Service Unavailable'')", OF q ne u p]
    by (auto simp: s)
qed

text \<open>
  C3. The claim says that \<open>search_web\<close> never raises. The handler catches
  \<open>requests.RequestException\<close> only, and \<open>urllib.parse.quote\<close> raises \<open>UnicodeEncodeError\<close> on a
  lone surrogate, so the one-character query \<open>U+D800\<close> makes \<open>search_web\<close> raise.
\<close>

theorem search_web_raises_on_surrogate:
  "fst (search_web (respond 200 (ascii ''X'')) (example_component [55296])) = Inl UnicodeEncodeError"
  by (simp add: search_web_def search_web_try_def example_query_strip example_engine
      strip_def isspace_def build_search_url_def quote_def utf8_char_def is_surrogate_def)

text \<open>
  C3, as amended. When the extracted query holds no surrogate code point and the dispatcher
  raises nothing but \<open>requests.RequestException\<close>, \<open>search_web\<close> returns a record, whose
  status is \<open>"success"\<close> or \<open>"error"\<close>; it is \<open>"success"\<close> only when the query is not empty and
  the POST returned status code 200, so the empty query, every other status code and every
  transport failure give a record with \<open>status = "error"\<close>.
\<close>

theorem search_web_returns_record:
  assumes ns: "\<forall>c\<in>set (get_query_from_input self). \<not> is_surrogate c"
    and rq: "\<forall>r e. post r = Inl e \<longrightarrow> (\<exists>m. e = RequestException m)"
  shows "\<exists>d. fst (search_web post self) = Inr d \<and>
           (map_of (ddata d) ''status'' = Some (Str (ascii ''success'')) \<or>
            map_of (ddata d) ''status'' = Some (Str (ascii ''error''))) \<and>
           (map_of (ddata d) ''status'' = Some (Str (ascii ''success'')) \<longleftrightarrow>
              get_query_from_input self \<noteq> [] \<and>
              (\<exists>u resp. build_search_url (engine self) (get_query_from_input self) = Inr u \<and>
                 post (search_request self u) = Inr resp \<and> status_code resp = 200))"
proof (cases "get_query_from_input self = []")
  case True
  then show ?thesis
    by (simp add: search_web_def search_web_try_blank success_neq_error [symmetric])
next
  case False
  from build_search_url_total [OF ns] obtain u where
    u: "build_search_url (engine self) (get_query_from_input self) = Inr u" by blast
  show ?thesis
  proof (cases "post (search_request self u)")
    case (Inl e)
    with rq obtain m where m: "e = RequestException m" by blast
    show ?thesis
      using search_web_try_post_raises [where post = post, OF False u Inl] Inl u
      by (simp add: search_web_def Let_def m success_neq_error [symmetric])
  next
    case (Inr resp)
    show ?thesis
      using search_web_try_response [where post = post, OF False u Inr] Inr u False
      by (simp add: search_web_def success_neq_error [symmetric])
  qed
qed

theorem search_web_returns_record_witness:
  "\<exists>d. fst (search_web (fail_with (RequestException (ascii ''Connection refused'')))
              (example_component (ascii ''cats and dogs''))) = Inr d \<and>
       map_of (ddata d) ''status'' = Some (Str (ascii ''error''))"
proof -
  have ns: "\<forall>c\<in>set (get_query_from_input (example_component (ascii ''cats and dogs''))).
              \<not> is_surrogate c"
    by (simp add: example_query_strip strip_cats) (simp add: ascii_def is_surrogate_def)
  have rq: "\<forall>r e. fail_with (RequestException (ascii ''Connection refused'')) r = Inl e \<longrightarrow>
              (\<exists>m. e = RequestException m)"
    by (auto simp: fail_with_def)
  have np: "\<And>u. fail_with (RequestException (ascii ''Connection refused''))
              (search_request (example_component (ascii ''cats and dogs'')) u) \<noteq> Inr resp" for resp
    by (simp add: fail_with_def)
  show ?thesis
    using search_web_returns_record [OF ns rq] np
    by (auto simp: success_neq_error)
qed

text \<open>
  C4. When the query is empty after extraction and trimming (the input was empty or held
  white space only), \<open>search_web\<close> returns the error record \<open>"Search query is required"\<close>
  and hands no request to the dispatcher, whatever the dispatcher is.
\<close>

theorem search_web_blank_query:
  assumes "get_query_from_input self = []"
  shows "search_web post self =
           (Inr \<lparr>dtext = ascii ''Search query is required'',
                 ddata = [(''status'', Str (ascii ''error'')),
                          (''error'', Str (ascii ''Search query is required''))]\<rparr>, [])"
  using assms by (simp add: search_web_def search_web_try_blank)

theorem search_web_blank_query_witness:
  "search_web (respond 200 (ascii ''X'')) (example_component [32, 9, 32, 10]) =
     (Inr \<lparr>dtext = ascii ''Search query is required'',
           ddata = [(''status'', Str (ascii ''error'')),
                    (''error'', Str (ascii ''Search query is required''))]\<rparr>, [])"
proof -
  have "get_query_from_input (example_component [32, 9, 32, 10]) = []"
    by (simp add: example_query_strip strip_eq_Nil_iff isspace_def)
  then show ?thesis by (rule search_web_blank_query)
qed

text \<open>
  C5. The claim ends with "the builder never fails". The builder calls
  \<open>urllib.parse.quote\<close>, which raises \<open>UnicodeEncodeError\<close> on a lone surrogate: for the
  engine \<open>bing\<close> and the one-character query \<open>U+DC00\<close> no URL is built.
\<close>

theorem build_search_url_fails_on_surrogate:
  "build_search_url (Str (ascii ''bing'')) [56320] = Inl UnicodeEncodeError"
  by (simp add: build_search_url_def quote_def utf8_char_def is_surrogate_def)

text \<open>
  C5, as amended. For every query without a surrogate code point the builder returns the
  template of the engine followed by the encoded query: the yandex.com template for
  \<open>"yandex"\<close>, the www.bing.com template for \<open>"bing"\<close>, and the www.google.com template for
  every other value (\<open>"google"\<close>, unset, an invalid string). It fails, with
  \<open>UnicodeEncodeError\<close>, exactly on the queries that hold a surrogate code point.
\<close>

theorem build_search_url_engines:
  "if (\<exists>c\<in>set q. is_surrogate c) then build_search_url eng q = Inl UnicodeEncodeError
   else (\<exists>enc. quote q = Inr enc \<and>
           build_search_url eng q =
             Inr ((if eng = Str (ascii ''yandex'') then ascii ''https://yandex.com/search/?text=''
                   else if eng = Str (ascii ''bing'') then ascii ''https://www.bing.com/search?q=''
                   else ascii ''https://www.google.com/search?q='') @ enc))"
proof (cases "\<exists>c\<in>set q. is_surrogate c")
  case True
  then show ?thesis by (simp add: build_search_url_Inl_iff)
next
  case False
  then obtain enc where "quote q = Inr enc" using quote_total [of q] by blast
  with False show ?thesis by (simp add: build_search_url_def)
qed

theorem build_search_url_engines_witness:
  "build_search_url (Str (ascii ''yandex'')) (ascii ''a b'') =
     Inr (ascii ''https://yandex.com/search/?text=a%20b'') \<and>
   build_search_url (Str (ascii ''bing'')) (ascii ''a b'') =
     Inr (ascii ''https://www.bing.com/search?q=a%20b'') \<and>
   build_search_url (Str (ascii ''google'')) (ascii ''a b'') =
     Inr (ascii ''https://www.google.com/search?q=a%20b'') \<and>
   build_search_url NoneV (ascii ''a b'') =
     Inr (ascii ''https://www.google.com/search?q=a%20b'') \<and>
   build_search_url (Str (ascii ''duckduckgo'')) (ascii ''a b'') =
     Inr (ascii ''https://www.google.com/search?q=a%20b'')"
proof -
  have ns: "\<not> (\<exists>c\<in>set (ascii ''a b''). is_surrogate c)"
    by (simp add: ascii_def is_surrogate_def)
  have e: "ascii ''bing'' \<noteq> ascii ''yandex''" "ascii ''google'' \<noteq> ascii ''yandex''"
    "ascii ''google'' \<noteq> ascii ''bing''" "ascii ''duckduckgo'' \<noteq> ascii ''yandex''"
    "ascii ''duckduckgo'' \<noteq> ascii ''bing''"
    by (simp_all add: ascii_def)
  have c: "ascii ''https://yandex.com/search/?text='' @ ascii ''a%20b'' =
             ascii ''https://yandex.com/search/?text=a%20b''"
    "ascii ''https://www.bing.com/search?q='' @ ascii ''a%20b'' =
             ascii ''https://www.bing.com/search?q=a%20b''"
    "ascii ''https://www.google.com/search?q='' @ ascii ''a%20b'' =
             ascii ''https://www.google.com/search?q=a%20b''"
    by (simp_all add: ascii_def)
  show ?thesis
    using build_search_url_engines [where q = "ascii ''a b''" and eng = "Str (ascii ''yandex'')"]
      build_search_url_engines [where q = "ascii ''a b''" and eng = "Str (ascii ''bing'')"]
      build_search_url_engines [where q = "ascii ''a b''" and eng = "Str (ascii ''google'')"]
      build_search_url_engines [where q = "ascii ''a b''" and eng = NoneV]
      build_search_url_engines [where q = "ascii ''a b''" and eng = "Str (ascii ''duckduckgo'')"]
    by (simp add: ns quote_a_b e c)
qed



text \<open>
  C7. The claim promises one POST for every non-empty query. A query with a lone
  surrogate is not empty, and \<open>search_web\<close> raises while building the URL, before any
  request is made.
\<close>

theorem search_web_surrogate_no_post:
  "get_query_from_input (example_component [97, 56320]) = [97, 56320] \<and>
   snd (search_web (respond 200 (ascii ''X'')) (example_component [97, 56320])) = []"
  by (simp add: search_web_def search_web_try_def example_query_strip example_engine
      strip_def isspace_def build_search_url_def quote_def utf8_char_def is_surrogate_def)

text \<open>
  C7, as amended. For every non-empty query without a surrogate code point, exactly one
  request is handed to the dispatcher, whatever it answers: a POST to
  \<open>https://api.brightdata.com/request\<close> with the JSON body \<open>url\<close> (the search URL built),
  \<open>zone = "mcp_unlocker"\<close>, \<open>format = "raw"\<close>, \<open>data_format = "markdown"\<close>, the headers
  \<open>authorization = "Bearer <token>"\<close> and \<open>Content-Type = "application/json"\<close>, and a timeout
  of 120 seconds.
\<close>

theorem search_web_single_post:
  assumes "get_query_from_input self = q" and "q \<noteq> []"
    and "\<forall>c\<in>set q. \<not> is_surrogate c"
  shows "\<exists>u. build_search_url (engine self) q = Inr u \<and>
           snd (search_web post self) =
             [\<lparr>url = ascii ''https://api.brightdata.com/request'',
               json = [(''url'', u), (''zone'', ascii ''mcp_unlocker''),
                       (''format'', ascii ''raw''), (''data_format'', ascii ''markdown'')],
               headers = [(''authorization'', ascii ''Bearer '' @ py_str (api_token self)),
                          (''Content-Type'', ascii ''application/json'')],
               timeout = 120\<rparr>]"
proof -
  from build_search_url_total [OF assms(3)] obtain u where
    u: "build_search_url (engine self) q = Inr u" by blast
  have ne: "get_query_from_input self \<noteq> []" using assms(1,2) by simp
  have u': "build_search_url (engine self) (get_query_from_input self) = Inr u"
    using u assms(1) by simp
  have "snd (search_web_try post self) = [search_request self u]"
  proof (cases "post (search_request self u)")
    case (Inl e)
    show ?thesis
      using search_web_try_post_raises [where post = post, OF ne u' Inl] by simp
  next
    case (Inr resp)
    show ?thesis
      using search_web_try_response [where post = post, OF ne u' Inr] by simp
  qed
  then show ?thesis using u by (simp add: search_web_requests search_request_def)
qed

theorem search_web_single_post_witness:
  "snd (search_web (respond 200 (ascii ''X'')) (example_component (ascii ''cats and dogs''))) =
     [\<lparr>url = ascii ''https://api.brightdata.com/request'',
       json = [(''url'', ascii ''https://www.google.com/search?q=cats%20and%20dogs''),
               (''zone'', ascii ''mcp_unlocker''),
               (''format'', ascii ''raw''), (''data_format'', ascii ''markdown'')],
       headers = [(''authorization'', ascii ''Bearer secret''),
                  (''Content-Type'', ascii ''application/json'')],
       timeout = 120\<rparr>]"
proof -
  have q: "get_query_from_input (example_component (ascii ''cats and dogs'')) = ascii ''cats and dogs''"
    by (simp add: example_query_strip strip_cats)
  have ne: "ascii ''cats and dogs'' \<noteq> []" by (simp add: ascii_def)
  have ns: "\<forall>c\<in>set (ascii ''cats and dogs''). \<not> is_surrogate c"
    by (simp add: ascii_def is_surrogate_def)
  have t: "ascii ''Bearer '' @ py_str (api_token (example_component (ascii ''cats and dogs'')))
             = ascii ''Bearer secret''"
    by (simp add: example_component_def ascii_def)
  show ?thesis
    using search_web_single_post [where post = "respond 200 (ascii ''X'')", OF q ne ns]
    by (simp add: example_engine example_url t)
qed

text \<open>
  C8. Every record that \<open>search_web\<close> returns should hold the keys \<open>status\<close>, \<open>query\<close> and
  \<open>engine\<close>, the record of the empty-query validation error included. The code's record
  for an empty query holds \<open>status\<close> and \<open>error\<close> only: it has neither \<open>query\<close> nor \<open>engine\<close>,
  while the records of the two other error paths have both.
\<close>

theorem search_web_empty_query_record_keys:
  "\<exists>d. fst (search_web (respond 200 (ascii ''X'')) (example_component [])) = Inr d \<and>
       map fst (ddata d) = [''status'', ''error''] \<and>
       map_of (ddata d) ''query'' = None \<and> map_of (ddata d) ''engine'' = None"
proof -
  have "get_query_from_input (example_component []) = []"
    by (simp add: example_query_strip strip_def)
  then show ?thesis
    by (simp add: search_web_def search_web_try_blank)
qed

text \<open>
  C9. When the POST of a non-empty query fails with a \<open>requests.RequestException\<close> of text
  \<open>m\<close>, \<open>search_web\<close> returns an error record whose message is
  \<open>"Exception occurred while searching: "\<close> followed by \<open>m\<close> and whose \<open>query\<close> entry is the
  extracted query. The placeholder \<open>"unknown"\<close> stands for an unbound \<open>query\<close> variable
  only: wherever the \<open>try\<close> block raises, the variable is bound to the extracted query.
\<close>

theorem search_web_transport_failure:
  assumes "get_query_from_input self = q" and "q \<noteq> []"
    and "build_search_url (engine self) q = Inr u"
    and "post (search_request self u) = Inl (RequestException m)"
  shows "search_web post self =
           (Inr \<lparr>dtext = ascii ''Exception occurred while searching: '' @ m,
                 ddata = [(''query'', Str q), (''engine'', engine self),
                          (''status'', Str (ascii ''error'')),
                          (''error'', Str (ascii ''Exception occurred while searching: '' @ m))]\<rparr>,
            [search_request self u]) \<and>
         (\<forall>p e ql reqs. search_web_try p self = (Inl (e, ql), reqs) \<longrightarrow> ql = Some q)"
proof -
  have ne: "get_query_from_input self \<noteq> []" using assms(1,2) by simp
  have u: "build_search_url (engine self) (get_query_from_input self) = Inr u"
    using assms(1,3) by simp
  have "search_web_try post self = (Inl (RequestException m, Some q), [search_request self u])"
    using search_web_try_post_raises [where post = post, OF ne u assms(4)] assms(1) by simp
  then have "search_web post self =
           (Inr \<lparr>dtext = ascii ''Exception occurred while searching: '' @ m,
                 ddata = [(''query'', Str q), (''engine'', engine self),
                          (''status'', Str (ascii ''error'')),
                          (''error'', Str (ascii ''Exception occurred while searching: '' @ m))]\<rparr>,
            [search_request self u])"
    using search_web_request_exception [of post self m "Some q" "[search_request self u]"] by simp
  moreover have "\<forall>p e ql reqs. search_web_try p self = (Inl (e, ql), reqs) \<longrightarrow> ql = Some q"
    using search_web_try_query_bound assms(1) by blast
  ultimately show ?thesis by blast
qed

theorem search_web_transport_failure_witness:
  "search_web (fail_with (RequestException (ascii ''Connection refused'')))
     (example_component (ascii ''cats and dogs'')) =
     (Inr \<lparr>dtext = ascii ''Exception occurred while searching: Connection refused'',
           ddata = [(''query'', Str (ascii ''cats and dogs'')),
                    (''engine'', Str (ascii ''google'')),
                    (''status'', Str (ascii ''error'')),
                    (''error'', Str (ascii ''Exception occurred while searching: Connection refused''))]\<rparr>,
      [search_request (example_component (ascii ''cats and dogs''))
         (ascii ''https://www.google.com/search?q=cats%20and%20dogs'')])"
proof -
  have q: "get_query_from_input (example_component (ascii ''cats and dogs'')) = ascii ''cats and dogs''"
    by (simp add: example_query_strip strip_cats)
  have ne: "ascii ''cats and dogs'' \<noteq> []" by (simp add: ascii_def)
  have u: "build_search_url (engine (example_component (ascii ''cats and dogs''))) (ascii ''cats and dogs'')
             = Inr (ascii ''https://www.google.com/search?q=cats%20and%20dogs'')"
    by (simp add: example_engine example_url)
  have p: "fail_with (RequestException (ascii ''Connection refused''))
             (search_request (example_component (ascii ''cats and dogs''))
                (ascii ''https://www.google.com/search?q=cats%20and%20dogs''))
           = Inl (RequestException (ascii ''Connection refused''))"
    by (simp add: fail_with_def)
  have m: "ascii ''Exception occurred while searching: '' @ ascii ''Connection refused''
             = ascii ''Exception occurred while searching: Connection refused''"
    by (simp add: ascii_def)
  show ?thesis
    using search_web_transport_failure
      [where post = "fail_with (RequestException (ascii ''Connection refused''))", OF q ne u p]
    by (simp add: example_engine m)
qed

text \<open>
  C10. The result record does not depend on the API token: two invocations that differ in
  \<open>api_token\<close> only, and whose POST has the same outcome (the same response, or the same
  exception), return the same record. The token reaches the \<open>authorization\<close> header of the
  request only.
\<close>

theorem search_web_token_independent:
  assumes "\<forall>u. build_search_url (engine self) (get_query_from_input self) = Inr u \<longrightarrow>
             post (search_request self u) = post' (search_request (self\<lparr>api_token := t\<rparr>) u)"
  shows "fst (search_web post self) = fst (search_web post' (self\<lparr>api_token := t\<rparr>))"
proof -
  let ?self' = "self\<lparr>api_token := t\<rparr>"
  have q: "get_query_from_input ?self' = get_query_from_input self"
    by (rule get_query_from_input_token)
  have e: "engine ?self' = engine self" by simp
  have "fst (search_web_try post self) = fst (search_web_try post' ?self')"
  proof (cases "get_query_from_input self = []")
    case True
    then show ?thesis using q by (simp add: search_web_try_blank)
  next
    case False
    then have ne': "get_query_from_input ?self' \<noteq> []" using q by simp
    show ?thesis
    proof (cases "build_search_url (engine self) (get_query_from_input self)")
      case (Inl x)
      then have "build_search_url (engine ?self') (get_query_from_input ?self') = Inl x"
        using q e by simp
      then show ?thesis
        using search_web_try_encode_error [where post = post, OF False Inl]
          search_web_try_encode_error [where post = post' and self = ?self', OF ne'] q
        by simp
    next
      case (Inr u)
      then have u': "build_search_url (engine ?self') (get_query_from_input ?self') = Inr u"
        using q e by simp
      have same: "post (search_request self u) = post' (search_request ?self' u)"
        using assms Inr by blast
      show ?thesis
      proof (cases "post (search_request self u)")
        case l: (Inl x)
        then have l': "post' (search_request ?self' u) = Inl x" using same by simp
        show ?thesis
          using search_web_try_post_raises [where post = post, OF False Inr l]
            search_web_try_post_raises [where post = post' and self = ?self', OF ne' u' l'] q
          by simp
      next
        case r: (Inr resp)
        then have r': "post' (search_request ?self' u) = Inr resp" using same by simp
        show ?thesis
          using search_web_try_response [where post = post, OF False Inr r]
            search_web_try_response [where post = post' and self = ?self', OF ne' u' r'] q
          by simp
      qed
    qed
  qed
  then show ?thesis unfolding search_web_result e by (rule arg_cong)
qed

theorem search_web_token_independent_witness:
  "fst (search_web (respond 200 (ascii ''X'')) (example_component (ascii ''cats and dogs''))) =
   fst (search_web (respond 200 (ascii ''X''))
          ((example_component (ascii ''cats and dogs''))\<lparr>api_token := Str (ascii ''other'')\<rparr>))"
proof -
  have "\<forall>u. build_search_url (engine (example_component (ascii ''cats and dogs'')))
               (get_query_from_input (example_component (ascii ''cats and dogs''))) = Inr u \<longrightarrow>
             respond 200 (ascii ''X'') (search_request (example_component (ascii ''cats and dogs'')) u) =
             respond 200 (ascii ''X'')
               (search_request ((example_component (ascii ''cats and dogs''))\<lparr>api_token := Str (ascii ''other'')\<rparr>) u)"
    by (simp add: respond_def)
  then show ?thesis by (rule search_web_token_independent)
qed

end
